theory Spec2Isabelle
  imports Main "HOL-Library.Word"
begin

section \<open>Python values handled by the Group OSCORE scripts\<close>

text \<open>
  The scripts under \<^verbatim>\<open>src/coap/grupo-oscore\<close> build Group OSCORE security contexts on
  top of the aiocoap library. A Python \<^verbatim>\<open>bytes\<close> object is a list of 8-bit words, a
  Python \<^verbatim>\<open>str\<close> is a \<^typ>\<open>string\<close>, and an exception is a value of \<open>exn\<close>
  returned on the left of a sum.
\<close>

type_synonym byte = "8 word"
type_synonym bytes = "byte list"

datatype exn = OSError | JSONDecodeError | KeyError string | TypeError | ValueError | LibraryError string

definition bind_exn :: "exn + 'a \<Rightarrow> ('a \<Rightarrow> exn + 'b) \<Rightarrow> exn + 'b" where
  "bind_exn r f = (case r of Inl e \<Rightarrow> Inl e | Inr v \<Rightarrow> f v)"

subsection \<open>\<^verbatim>\<open>bytes.hex()\<close> and \<^verbatim>\<open>bytes.fromhex()\<close>\<close>

definition hexdigit :: "nat \<Rightarrow> char" where
  "hexdigit n = ''0123456789abcdef'' ! n"

definition hex_byte :: "byte \<Rightarrow> string" where
  "hex_byte b = [hexdigit (unat b div 16), hexdigit (unat b mod 16)]"

definition hex :: "bytes \<Rightarrow> string" where
  "hex bs = concat (map hex_byte bs)"

definition digit_value :: "char \<Rightarrow> nat option" where
  "digit_value c = map_of (zip ''0123456789abcdef'' [0..<16] @ zip ''ABCDEF'' [10..<16]) c"

definition isspace :: "char \<Rightarrow> bool" where
  "isspace c = (c \<in> set [CHR '' '', CHR 0x09, CHR 0x0A, CHR 0x0B, CHR 0x0C, CHR 0x0D])"

text \<open>
  \<^verbatim>\<open>bytes.fromhex\<close> skips ASCII whitespace in front of a pair of hex digits and raises
  \<^verbatim>\<open>ValueError\<close> (here \<open>None\<close>) on anything else.
\<close>

fun fromhex :: "string \<Rightarrow> bytes option" where
  "fromhex [] = Some []"
| "fromhex [c] = (if isspace c then Some [] else None)"
| "fromhex (c # d # cs) =
     (if isspace c then fromhex (d # cs)
      else case (digit_value c, digit_value d) of
             (Some h, Some l) \<Rightarrow> map_option ((#) (of_nat (16 * h + l))) (fromhex cs)
           | _ \<Rightarrow> None)"

subsection \<open>JSON values and the credential file\<close>

text \<open>
  A \<open>JObject\<close> is the dictionary \<^verbatim>\<open>json.load\<close> returns, in insertion order. The text of
  the credential file is modelled by what \<^verbatim>\<open>json.load\<close> makes of it: a JSON value, or
  \<open>Not_json\<close> when parsing raises (an empty file, a truncated or partly written text,
  anything else that is not JSON).
\<close>

datatype json = JNull | JBool bool | JNumber int | JString string
  | JArray "json list" | JObject "(string \<times> json) list"

datatype file_text = Json_text json | Not_json

text \<open>
  The file system as the scripts see it: the content of \<^verbatim>\<open>CREDENTIALS_FILE\<close>
  (\<open>None\<close> when \<^verbatim>\<open>os.path.exists\<close> is false), and whether opening it for reading and
  for writing succeeds.
\<close>

record filesystem =
  credentials_file :: "file_text option"
  readable :: bool
  writable :: bool

text \<open>\<^verbatim>\<open>value[key]\<close> with a string key.\<close>

fun getitem :: "json \<Rightarrow> string \<Rightarrow> exn + json" where
  "getitem (JObject kvs) k = (case map_of kvs k of Some v \<Rightarrow> Inr v | None \<Rightarrow> Inl (KeyError k))"
| "getitem _ k = Inl TypeError"

text \<open>\<^verbatim>\<open>bytes.fromhex(value)\<close> on a value read from the file.\<close>

fun bytes_fromhex :: "json \<Rightarrow> exn + bytes" where
  "bytes_fromhex (JString s) = (case fromhex s of Some b \<Rightarrow> Inr b | None \<Rightarrow> Inl ValueError)"
| "bytes_fromhex _ = Inl TypeError"

section \<open>Credential management\<close>

text \<open>
  \<^verbatim>\<open>GROUP_CONFIG\<close> of \<^verbatim>\<open>oscore_group_network_fixed.py\<close> and
  \<^verbatim>\<open>oscore_group_benchmark.py\<close>: \<^verbatim>\<open>b"grp1"\<close>, the fixed master secret and salt,
  \<^verbatim>\<open>b"C1"\<close> and \<^verbatim>\<open>b"S1"\<close>.
\<close>

definition config_group_id :: bytes where
  "config_group_id = [0x67, 0x72, 0x70, 0x31]"

definition config_master_secret :: bytes where
  "config_master_secret =
     [0x42, 0x5a, 0x52, 0x4d, 0x5a, 0x32, 0xf7, 0xd0, 0xd3, 0x86, 0x60, 0x33, 0x59, 0xfa, 0x38, 0x32]"

definition config_master_salt :: bytes where
  "config_master_salt = [0x1b, 0x0b, 0x57, 0xf7, 0x4e, 0xf4, 0x09, 0x9c]"

definition config_client_id :: bytes where
  "config_client_id = [0x43, 0x31]"

definition config_server_id :: bytes where
  "config_server_id = [0x53, 0x31]"

text \<open>
  \<^verbatim>\<open>Ed25519().generate_with_ccs()\<close> returns a fresh private key and its credential. The
  three pairs one generation draws (group manager, client, server, in that order) are an
  input of the model.
\<close>

type_synonym keypair = "bytes \<times> bytes"

record fresh_keys =
  gm_keys :: keypair
  client_keys :: keypair
  server_keys :: keypair

definition credential_entry :: "keypair \<Rightarrow> json" where
  "credential_entry kp =
     JObject [(''private_key'', JString (hex (fst kp))), (''credential'', JString (hex (snd kp)))]"

definition credentials_dict :: "fresh_keys \<Rightarrow> json" where
  "credentials_dict ks =
     JObject [(''group_manager'', credential_entry (gm_keys ks)),
              (''client'', credential_entry (client_keys ks)),
              (''server'', credential_entry (server_keys ks))]"

text \<open>
  \<^verbatim>\<open>with open(CREDENTIALS_FILE, 'w') as f: json.dump(credentials, f, indent=2)\<close>: the
  states of the file system during the statement. Opening in mode \<^verbatim>\<open>'w'\<close> creates or
  truncates the file itself; the JSON text is written into it afterwards.
\<close>

definition save_steps :: "json \<Rightarrow> filesystem \<Rightarrow> filesystem list" where
  "save_steps j fs =
     [fs\<lparr>credentials_file := Some Not_json\<rparr>, fs\<lparr>credentials_file := Some (Json_text j)\<rparr>]"

definition generate_and_save_credentials :: "fresh_keys \<Rightarrow> filesystem \<Rightarrow> (exn + json) \<times> filesystem" where
  "generate_and_save_credentials ks fs =
     (if writable fs then (Inr (credentials_dict ks), last (save_steps (credentials_dict ks) fs))
      else (Inl OSError, fs))"

text \<open>\<^verbatim>\<open>load_credentials\<close> of \<^verbatim>\<open>oscore_group_network_fixed.py\<close>.\<close>

definition load_credentials :: "fresh_keys \<Rightarrow> filesystem \<Rightarrow> (exn + json) \<times> filesystem" where
  "load_credentials ks fs =
     (case credentials_file fs of
        None \<Rightarrow> generate_and_save_credentials ks fs
      | Some t \<Rightarrow>
          (if \<not> readable fs then generate_and_save_credentials ks fs
           else case t of
                  Json_text credentials \<Rightarrow> (Inr credentials, fs)
                | Not_json \<Rightarrow> generate_and_save_credentials ks fs))"

text \<open>
  \<^verbatim>\<open>load_or_create_credentials\<close> of \<^verbatim>\<open>oscore_group_benchmark.py\<close>: the bare
  \<^verbatim>\<open>except: pass\<close> falls through to the generation below it.
\<close>

definition load_or_create_credentials :: "fresh_keys \<Rightarrow> filesystem \<Rightarrow> (exn + json) \<times> filesystem" where
  "load_or_create_credentials ks fs =
     (let generate = (if writable fs
                      then (Inr (credentials_dict ks), last (save_steps (credentials_dict ks) fs))
                      else (Inl OSError, fs))
      in case credentials_file fs of
           None \<Rightarrow> generate
         | Some t \<Rightarrow>
             (if \<not> readable fs then generate
              else case t of Json_text credentials \<Rightarrow> (Inr credentials, fs) | Not_json \<Rightarrow> generate))"

section \<open>Replay windows\<close>

text \<open>
  Modelled from the spec: the class \<^verbatim>\<open>ReplayWindow\<close> belongs to the aiocoap library and
  is not part of the sources; the scripts only call its \<^verbatim>\<open>initialize_empty\<close>. The
  model follows section 4.3 of the specification: a window holds the highest accepted
  sequence number and the recently accepted numbers, within a window of fixed size, and a
  mark telling whether a first number has anchored it.
\<close>

record replay_window =
  window_size :: nat
  anchored :: bool
  highest :: nat
  accepted :: "nat list"

text \<open>
  Modelled from the spec: \<^verbatim>\<open>initialize_empty()\<close> "clears state, marks the window as
  not yet anchored".
\<close>

definition initialize_empty :: "replay_window \<Rightarrow> replay_window" where
  "initialize_empty w = w\<lparr>anchored := False, highest := 0, accepted := []\<rparr>"

text \<open>
  Modelled from the spec: \<^verbatim>\<open>check_and_record(seq)\<close>. The first number received by a
  window that is not anchored is accepted and becomes \<open>highest\<close>. Afterwards a number is
  rejected if \<open>seq \<le> highest - window_size\<close> or if it is already in \<open>accepted\<close>; otherwise
  it is recorded, \<open>highest\<close> advances to \<open>max highest seq\<close>, and the entries at or below the
  new boundary \<open>highest - window_size\<close> are evicted. The boundary is computed in the
  integers.
\<close>

definition too_old :: "replay_window \<Rightarrow> nat \<Rightarrow> nat \<Rightarrow> bool" where
  "too_old w h seq = (int seq \<le> int h - int (window_size w))"

definition check_and_record :: "nat \<Rightarrow> replay_window \<Rightarrow> bool \<times> replay_window" where
  "check_and_record seq w =
     (if \<not> anchored w then (True, w\<lparr>anchored := True, highest := seq, accepted := [seq]\<rparr>)
      else if too_old w (highest w) seq \<or> seq \<in> set (accepted w) then (False, w)
      else (True, w\<lparr>highest := max (highest w) seq,
                     accepted := filter (\<lambda>s. \<not> too_old w (max (highest w) seq) s) (seq # accepted w)\<rparr>))"

section \<open>Security contexts\<close>

datatype aead_alg = A128GCM | Other_aead int
datatype sign_alg = Ed25519 | Other_sign int
datatype hash_alg = Sha256 | Other_hash string

text \<open>
  The keyword arguments every script passes to the context constructor; \<open>peers\<close> is the
  dictionary from a peer's identifier to its credential.
\<close>

record group_args =
  alg_aead :: aead_alg
  hashfun :: hash_alg
  alg_signature :: sign_alg
  alg_group_enc :: aead_alg
  alg_pairwise_key_agreement :: "unit option"
  group_id :: bytes
  master_secret :: bytes
  master_salt :: bytes
  sender_id :: bytes
  private_key :: bytes
  sender_auth_cred :: bytes
  peers :: "(bytes \<times> bytes) list"
  group_manager_cred :: bytes

text \<open>
  A context object: what it was constructed from, and its mutable state. The constructor
  of the library class \<^verbatim>\<open>SimpleGroupContext\<close> is a parameter \<open>base\<close> of the model: it
  returns a context or raises.
\<close>

record security_context = group_args +
  sender_sequence_number :: nat
  recipient_replay_windows :: "bytes \<rightharpoonup> replay_window"
  echo_recovery :: "bytes option"

type_synonym base_constructor = "group_args \<Rightarrow> exn + security_context"

text \<open>
  The loop of \<^verbatim>\<open>FixedGroupContext.__init__\<close> and
  \<^verbatim>\<open>BenchmarkGroupContext.__init__\<close>:
  \<^verbatim>\<open>for peer_id in self.peers: if peer_id in self.recipient_replay_windows: ...\<close>
\<close>

fun init_windows :: "bytes list \<Rightarrow> (bytes \<rightharpoonup> replay_window) \<Rightarrow> (bytes \<rightharpoonup> replay_window)" where
  "init_windows [] ws = ws"
| "init_windows (peer_id # ps) ws =
     init_windows ps
       (case ws peer_id of None \<Rightarrow> ws | Some w \<Rightarrow> ws(peer_id \<mapsto> initialize_empty w))"

text \<open>
  \<^verbatim>\<open>FixedGroupContext(...)\<close>: the base constructor, then a fresh 8-byte
  \<^verbatim>\<open>echo_recovery\<close> (\<open>token\<close>, the result of \<^verbatim>\<open>secrets.token_bytes(8)\<close>), then the
  loop over the peers.
\<close>

definition FixedGroupContext :: "base_constructor \<Rightarrow> bytes \<Rightarrow> group_args \<Rightarrow> exn + security_context" where
  "FixedGroupContext base token a =
     (case base a of
        Inl e \<Rightarrow> Inl e
      | Inr self \<Rightarrow>
          Inr (self\<lparr>echo_recovery := Some token,
                    recipient_replay_windows :=
                      init_windows (map fst (peers self)) (recipient_replay_windows self)\<rparr>))"

definition BenchmarkGroupContext :: "base_constructor \<Rightarrow> bytes \<Rightarrow> group_args \<Rightarrow> exn + security_context" where
  "BenchmarkGroupContext base token a =
     (case base a of
        Inl e \<Rightarrow> Inl e
      | Inr self \<Rightarrow>
          Inr (self\<lparr>echo_recovery := Some token,
                    recipient_replay_windows :=
                      init_windows (map fst (peers self)) (recipient_replay_windows self)\<rparr>))"

text \<open>
  \<^verbatim>\<open>pairwise_for\<close> of both classes returns \<^verbatim>\<open>self\<close>. The library method it overrides
  would build a \<^verbatim>\<open>_PairwiseContextAspect\<close> for the recipient.
\<close>

datatype oscore_context = Group_context security_context | Pairwise_aspect security_context bytes

definition pairwise_for :: "security_context \<Rightarrow> bytes \<Rightarrow> oscore_context" where
  "pairwise_for self recipient_id = Group_context self"

definition benchmark_pairwise_for :: "security_context \<Rightarrow> bytes \<Rightarrow> oscore_context" where
  "benchmark_pairwise_for self recipient_id = Group_context self"

text \<open>\<^verbatim>\<open>bytes.fromhex(creds[entry][field])\<close>\<close>

definition hex_field :: "json \<Rightarrow> string \<Rightarrow> string \<Rightarrow> exn + bytes" where
  "hex_field creds entry field =
     bind_exn (getitem creds entry) (\<lambda>e. bind_exn (getitem e field) bytes_fromhex)"

text \<open>
  The arguments \<^verbatim>\<open>create_group_context\<close> and \<^verbatim>\<open>create_benchmark_context\<close> assemble
  from the loaded credentials, in the order the statements run.
\<close>

definition context_args :: "json \<Rightarrow> bool \<Rightarrow> exn + group_args" where
  "context_args creds is_client =
     bind_exn (hex_field creds ''group_manager'' ''private_key'') (\<lambda>gm_private_key.
     bind_exn (hex_field creds ''group_manager'' ''credential'') (\<lambda>gm_cred.
     bind_exn (hex_field creds (if is_client then ''client'' else ''server'') ''private_key'') (\<lambda>key.
     bind_exn (hex_field creds (if is_client then ''client'' else ''server'') ''credential'') (\<lambda>sender_cred.
     bind_exn (hex_field creds (if is_client then ''server'' else ''client'') ''credential'') (\<lambda>peer_cred.
       Inr \<lparr>alg_aead = A128GCM, hashfun = Sha256, alg_signature = Ed25519,
            alg_group_enc = A128GCM, alg_pairwise_key_agreement = None,
            group_id = config_group_id, master_secret = config_master_secret,
            master_salt = config_master_salt,
            sender_id = (if is_client then config_client_id else config_server_id),
            private_key = key, sender_auth_cred = sender_cred,
            peers = [(if is_client then config_server_id else config_client_id, peer_cred)],
            group_manager_cred = gm_cred\<rparr>)))))"

text \<open>
  \<^verbatim>\<open>create_group_context\<close> of \<^verbatim>\<open>oscore_group_network_fixed.py\<close>. The credentials are
  loaded and decoded outside the \<^verbatim>\<open>try\<close>; whatever the constructor raises is caught,
  logged, and \<^verbatim>\<open>None\<close> is returned.
\<close>

definition create_group_context ::
  "base_constructor \<Rightarrow> bytes \<Rightarrow> fresh_keys \<Rightarrow> filesystem \<Rightarrow> bool
     \<Rightarrow> (exn + security_context option) \<times> filesystem" where
  "create_group_context base token ks fs is_client =
     (case load_credentials ks fs of
        (Inl e, fs') \<Rightarrow> (Inl e, fs')
      | (Inr creds, fs') \<Rightarrow>
          (bind_exn (context_args creds is_client)
             (\<lambda>a. case FixedGroupContext base token a of
                     Inl e \<Rightarrow> Inr None
                   | Inr c \<Rightarrow> Inr (Some c)),
           fs'))"

text \<open>\<^verbatim>\<open>create_benchmark_context\<close> of \<^verbatim>\<open>oscore_group_benchmark.py\<close> has no \<^verbatim>\<open>try\<close>.\<close>

definition create_benchmark_context ::
  "base_constructor \<Rightarrow> bytes \<Rightarrow> fresh_keys \<Rightarrow> filesystem \<Rightarrow> bool
     \<Rightarrow> (exn + security_context) \<times> filesystem" where
  "create_benchmark_context base token ks fs is_client =
     (case load_or_create_credentials ks fs of
        (Inl e, fs') \<Rightarrow> (Inl e, fs')
      | (Inr creds, fs') \<Rightarrow>
          (bind_exn (context_args creds is_client) (BenchmarkGroupContext base token), fs'))"

text \<open>
  The first statements of \<^verbatim>\<open>run_server\<close>:
  \<^verbatim>\<open>server_context = create_group_context(is_client=False)\<close>, and an early return when
  \<^verbatim>\<open>not server_context\<close>.
\<close>

datatype startup = Returned_early | Serving security_context

definition run_server_startup ::
  "base_constructor \<Rightarrow> bytes \<Rightarrow> fresh_keys \<Rightarrow> filesystem \<Rightarrow> (exn + startup) \<times> filesystem" where
  "run_server_startup base token ks fs =
     (case create_group_context base token ks fs False of
        (Inl e, fs') \<Rightarrow> (Inl e, fs')
      | (Inr None, fs') \<Rightarrow> (Inr Returned_early, fs')
      | (Inr (Some c), fs') \<Rightarrow> (Inr (Serving c), fs'))"

section \<open>The shared configuration of the test script\<close>

text \<open>
  The dictionary \<^verbatim>\<open>create_shared_group_config\<close> of \<^verbatim>\<open>server_oscore_group_testing.py\<close>
  returns. The master secret, the master salt and the three key pairs are drawn at random
  and are inputs of the model.
\<close>

record shared_config =
  cfg_group_id :: bytes
  cfg_master_secret :: bytes
  cfg_master_salt :: bytes
  cfg_alg_aead :: aead_alg
  cfg_alg_signature :: sign_alg
  cfg_alg_group_enc :: aead_alg
  cfg_alg_pairwise_key_agreement :: "unit option"
  cfg_hashfun :: hash_alg
  cfg_client_id :: bytes
  cfg_server_id :: bytes
  cfg_gm_private_key :: bytes
  cfg_gm_cred :: bytes
  cfg_client_private_key :: bytes
  cfg_client_cred :: bytes
  cfg_server_private_key :: bytes
  cfg_server_cred :: bytes

definition create_shared_group_config :: "bytes \<Rightarrow> bytes \<Rightarrow> fresh_keys \<Rightarrow> shared_config" where
  "create_shared_group_config secret salt ks =
     \<lparr>cfg_group_id = [0x67, 0x72, 0x70, 0x31], cfg_master_secret = secret, cfg_master_salt = salt,
      cfg_alg_aead = A128GCM, cfg_alg_signature = Ed25519, cfg_alg_group_enc = A128GCM,
      cfg_alg_pairwise_key_agreement = None, cfg_hashfun = Sha256,
      cfg_client_id = [0x43, 0x31], cfg_server_id = [0x53, 0x31],
      cfg_gm_private_key = fst (gm_keys ks), cfg_gm_cred = snd (gm_keys ks),
      cfg_client_private_key = fst (client_keys ks), cfg_client_cred = snd (client_keys ks),
      cfg_server_private_key = fst (server_keys ks), cfg_server_cred = snd (server_keys ks)\<rparr>"

text \<open>The keyword arguments of the two constructor calls of \<^verbatim>\<open>create_group_contexts_from_config\<close>.\<close>

definition client_context_args :: "shared_config \<Rightarrow> group_args" where
  "client_context_args config =
     \<lparr>alg_aead = cfg_alg_aead config, hashfun = cfg_hashfun config,
      alg_signature = cfg_alg_signature config, alg_group_enc = cfg_alg_group_enc config,
      alg_pairwise_key_agreement = cfg_alg_pairwise_key_agreement config,
      group_id = cfg_group_id config, master_secret = cfg_master_secret config,
      master_salt = cfg_master_salt config, sender_id = cfg_client_id config,
      private_key = cfg_client_private_key config, sender_auth_cred = cfg_client_cred config,
      peers = [(cfg_server_id config, cfg_server_cred config)],
      group_manager_cred = cfg_gm_cred config\<rparr>"

definition server_context_args :: "shared_config \<Rightarrow> group_args" where
  "server_context_args config =
     \<lparr>alg_aead = cfg_alg_aead config, hashfun = cfg_hashfun config,
      alg_signature = cfg_alg_signature config, alg_group_enc = cfg_alg_group_enc config,
      alg_pairwise_key_agreement = cfg_alg_pairwise_key_agreement config,
      group_id = cfg_group_id config, master_secret = cfg_master_secret config,
      master_salt = cfg_master_salt config, sender_id = cfg_server_id config,
      private_key = cfg_server_private_key config, sender_auth_cred = cfg_server_cred config,
      peers = [(cfg_client_id config, cfg_client_cred config)],
      group_manager_cred = cfg_gm_cred config\<rparr>"


section \<open>Key derivation, protection and unprotection\<close>

text \<open>
  Modelled from the spec: key derivation, \<^verbatim>\<open>protect\<close> and \<^verbatim>\<open>unprotect\<close> are methods of
  the aiocoap class \<^verbatim>\<open>SimpleGroupContext\<close>, which the scripts call and which is not part
  of the sources. The definitions below follow sections 3, 4.2, 4.4, 4.5 and 7 of the
  specification.
\<close>

datatype failure = CredentialGenerationError | CredentialStoreCorrupt | UnsupportedAlgorithm
  | UnknownSender | ReplayDetected | DecryptionFailed | SignatureInvalid | SequenceExhausted
  | StaleChallenge

text \<open>
  Modelled from the spec: GroupParameters, "group identifier, master secret, master salt,
  AEAD algorithm identifier, signature algorithm identifier, hash function identifier",
  here read off the arguments a context was constructed from.
\<close>

record group_parameters =
  gp_group_id :: bytes
  gp_master_secret :: bytes
  gp_master_salt :: bytes
  gp_alg_aead :: aead_alg
  gp_alg_signature :: sign_alg
  gp_hashfun :: hash_alg

definition group_parameters_of :: "'a group_args_scheme \<Rightarrow> group_parameters" where
  "group_parameters_of a =
     \<lparr>gp_group_id = group_id a, gp_master_secret = master_secret a,
      gp_master_salt = master_salt a, gp_alg_aead = alg_aead a,
      gp_alg_signature = alg_signature a, gp_hashfun = hashfun a\<rparr>"

text \<open>Modelled from the spec: DerivedKeyMaterial, "AEAD key, common IV".\<close>

record derived_key_material =
  aead_key :: bytes
  common_iv :: bytes

text \<open>
  Modelled from the spec: a plaintext application message, "method/code, options,
  payload".
\<close>

record message =
  msg_code :: nat
  msg_options :: "(nat \<times> bytes) list"
  msg_payload :: bytes

text \<open>
  Modelled from the spec: the wire fields of a ProtectedMessage, "sender key identifier,
  partial sequence number, combined ciphertext+signature", and the correlation identifier
  \<^verbatim>\<open>protect\<close> returns, which names the request a response is bound to.
\<close>

record protected_message =
  kid :: bytes
  partial_seq :: bytes
  body :: bytes

record correlation =
  request_kid :: bytes
  request_partial_seq :: bytes

text \<open>
  Modelled from the spec: the external associated data, "group identifier, sender
  identifier, algorithm identifiers, and for responses the original request's partial
  sequence number". Responses without a request handle (the echo recovery of section 4.6)
  are not modelled.
\<close>

datatype binding = Unbound | Bound_to_request bytes

record external_aad =
  aad_group_id :: bytes
  aad_sender_id :: bytes
  aad_alg_aead :: aead_alg
  aad_alg_signature :: sign_alg
  aad_hashfun :: hash_alg
  aad_binding :: binding

text \<open>
  Modelled from the spec: what the specification leaves to the cryptographic suite and to
  the wire format. The key-derivation function takes the hash, the master secret, the
  master salt and the derivation context (group, sender and recipient identifier). The
  nonce is built from the common IV, the sender identifier and the sequence number. The
  AEAD takes key, nonce, associated data and the plaintext message; the signature is over
  the associated data and the ciphertext, and has a fixed length. The partial sequence
  number is the low-order bytes of the counter, and the full number is reconstructed from
  it and the sender's replay window. The counter has \<open>counter_bits\<close> bits.
\<close>

record primitives =
  kdf :: "hash_alg \<Rightarrow> bytes \<Rightarrow> bytes \<Rightarrow> bytes \<times> bytes \<times> bytes \<Rightarrow> derived_key_material"
  aead_implemented :: "aead_alg \<Rightarrow> bool"
  hash_implemented :: "hash_alg \<Rightarrow> bool"
  build_nonce :: "bytes \<Rightarrow> bytes \<Rightarrow> nat \<Rightarrow> bytes"
  aead_encrypt :: "aead_alg \<Rightarrow> bytes \<Rightarrow> bytes \<Rightarrow> external_aad \<Rightarrow> message \<Rightarrow> bytes"
  aead_decrypt :: "aead_alg \<Rightarrow> bytes \<Rightarrow> bytes \<Rightarrow> external_aad \<Rightarrow> bytes \<Rightarrow> message option"
  sig_sign :: "sign_alg \<Rightarrow> bytes \<Rightarrow> external_aad \<times> bytes \<Rightarrow> bytes"
  sig_verify :: "sign_alg \<Rightarrow> bytes \<Rightarrow> external_aad \<times> bytes \<Rightarrow> bytes \<Rightarrow> bool"
  signature_length :: "sign_alg \<Rightarrow> nat"
  low_order_bytes :: "nat \<Rightarrow> bytes"
  reconstruct_seq :: "replay_window \<Rightarrow> bytes \<Rightarrow> nat"
  counter_bits :: nat

text \<open>
  Modelled from the spec: \<^verbatim>\<open>derive(params, sender_id, recipient_id)\<close>, which "fails with
  UnsupportedAlgorithm if the configured AEAD/hash identifiers are not implemented".
\<close>

definition derive ::
  "primitives \<Rightarrow> group_parameters \<Rightarrow> bytes \<Rightarrow> bytes \<Rightarrow> failure + derived_key_material" where
  "derive pr params sender recipient =
     (if aead_implemented pr (gp_alg_aead params) \<and> hash_implemented pr (gp_hashfun params)
      then Inr (kdf pr (gp_hashfun params) (gp_master_secret params) (gp_master_salt params)
                  (gp_group_id params, sender, recipient))
      else Inl UnsupportedAlgorithm)"

text \<open>
  Modelled from the spec: in group mode the key material is per sender (section 3), so the
  recipient identifier of the derivation is empty.
\<close>

definition group_recipient :: bytes where
  "group_recipient = []"

text \<open>
  Modelled from the spec: step 1 of \<^verbatim>\<open>protect\<close>, "allocate the next sequence number from
  the outbound counter; fails with SequenceExhausted if the counter would wrap its
  fixed-width representation".
\<close>

definition new_sequence_number :: "primitives \<Rightarrow> security_context \<Rightarrow> failure + nat \<times> security_context" where
  "new_sequence_number pr ctx =
     (if Suc (sender_sequence_number ctx) < 2 ^ counter_bits pr
      then Inr (sender_sequence_number ctx,
                ctx\<lparr>sender_sequence_number := Suc (sender_sequence_number ctx)\<rparr>)
      else Inl SequenceExhausted)"

text \<open>
  Modelled from the spec: step 2 of \<^verbatim>\<open>protect\<close>, repeated in step 4 of \<^verbatim>\<open>unprotect\<close>:
  the associated data of a message of the given sender; a message that comes with a
  correlation identifier is bound to that request's partial sequence number.
\<close>

definition message_aad :: "'a group_args_scheme \<Rightarrow> bytes \<Rightarrow> correlation option \<Rightarrow> external_aad" where
  "message_aad ctx sender corr =
     \<lparr>aad_group_id = group_id ctx, aad_sender_id = sender, aad_alg_aead = alg_aead ctx,
      aad_alg_signature = alg_signature ctx, aad_hashfun = hashfun ctx,
      aad_binding = (case corr of None \<Rightarrow> Unbound
                     | Some c \<Rightarrow> Bound_to_request (request_partial_seq c))\<rparr>"

text \<open>
  Modelled from the spec: "a nonce built deterministically from the common IV, the sender
  identifier, and the sequence number", by the same rule for all members.
\<close>

definition message_nonce :: "primitives \<Rightarrow> derived_key_material \<Rightarrow> bytes \<Rightarrow> nat \<Rightarrow> bytes" where
  "message_nonce pr km sender seq = build_nonce pr (common_iv km) sender seq"

text \<open>
  Modelled from the spec: steps 2 to 5 of \<^verbatim>\<open>protect\<close>, for an allocated sequence
  number. Beside the wire fields and the correlation identifier, the result names the nonce
  the message was encrypted under.
\<close>

definition seal ::
  "primitives \<Rightarrow> security_context \<Rightarrow> nat \<Rightarrow> message \<Rightarrow> correlation option
     \<Rightarrow> failure + bytes \<times> protected_message \<times> correlation" where
  "seal pr ctx seq m corr =
     (case derive pr (group_parameters_of ctx) (sender_id ctx) group_recipient of
        Inl e \<Rightarrow> Inl e
      | Inr km \<Rightarrow>
          (let aad = message_aad ctx (sender_id ctx) corr;
               nonce = message_nonce pr km (sender_id ctx) seq;
               ciphertext = aead_encrypt pr (alg_aead ctx) (aead_key km) nonce aad m;
               signature = sig_sign pr (alg_signature ctx) (private_key ctx) (aad, ciphertext)
           in Inr (nonce,
                   \<lparr>kid = sender_id ctx, partial_seq = low_order_bytes pr seq,
                      body = ciphertext @ signature\<rparr>,
                   \<lparr>request_kid = sender_id ctx,
                      request_partial_seq = low_order_bytes pr seq\<rparr>)))"

text \<open>Modelled from the spec: \<^verbatim>\<open>protect\<close> (section 4.4).\<close>

definition protect ::
  "primitives \<Rightarrow> security_context \<Rightarrow> message \<Rightarrow> correlation option
     \<Rightarrow> failure + (protected_message \<times> correlation) \<times> security_context" where
  "protect pr ctx m corr =
     (case new_sequence_number pr ctx of
        Inl e \<Rightarrow> Inl e
      | Inr (seq, ctx') \<Rightarrow>
          (case seal pr ctx seq m corr of
             Inl e \<Rightarrow> Inl e
           | Inr (nonce, out) \<Rightarrow> Inr (out, ctx')))"

text \<open>
  Modelled from the spec: \<^verbatim>\<open>unprotect\<close> (section 4.5). The sender is resolved first,
  since the sequence number is reconstructed against that sender's window; the replay
  check comes before decryption; the signature is verified after decryption. A failure
  leaves the context as it was (section 7).
\<close>

definition unprotect ::
  "primitives \<Rightarrow> security_context \<Rightarrow> protected_message \<Rightarrow> correlation option
     \<Rightarrow> failure + (message \<times> correlation) \<times> security_context" where
  "unprotect pr ctx pm corr =
     (case (map_of (peers ctx) (kid pm), recipient_replay_windows ctx (kid pm)) of
        (Some cred, Some w) \<Rightarrow>
          (let seq = reconstruct_seq pr w (partial_seq pm) in
           case check_and_record seq w of
             (False, w') \<Rightarrow> Inl ReplayDetected
           | (True, w') \<Rightarrow>
               (case derive pr (group_parameters_of ctx) (kid pm) group_recipient of
                  Inl e \<Rightarrow> Inl e
                | Inr km \<Rightarrow>
                    (let aad = message_aad ctx (kid pm) corr;
                         n = length (body pm) - signature_length pr (alg_signature ctx);
                         ciphertext = take n (body pm);
                         signature = drop n (body pm)
                     in case aead_decrypt pr (alg_aead ctx) (aead_key km)
                               (message_nonce pr km (kid pm) seq) aad ciphertext of
                          None \<Rightarrow> Inl DecryptionFailed
                        | Some m \<Rightarrow>
                            if sig_verify pr (alg_signature ctx) cred (aad, ciphertext) signature
                            then Inr ((m, \<lparr>request_kid = kid pm,
                                            request_partial_seq = partial_seq pm\<rparr>),
                                      ctx\<lparr>recipient_replay_windows :=
                                            (recipient_replay_windows ctx)(kid pm \<mapsto> w')\<rparr>)
                            else Inl SignatureInvalid)))
      | _ \<Rightarrow> Inl UnknownSender)"

text \<open>
  A run of consecutive \<^verbatim>\<open>protect\<close> calls on one context, as in the loops of
  \<^verbatim>\<open>run_client\<close> and \<^verbatim>\<open>run_benchmark_client\<close>: for every call that returns, the
  sequence number it allocated, the nonce it encrypted under and the message it produced.
  A call that fails leaves the context as it was.
\<close>

fun protect_run ::
  "primitives \<Rightarrow> security_context \<Rightarrow> message list \<Rightarrow> (nat \<times> bytes \<times> protected_message) list" where
  "protect_run pr ctx [] = []"
| "protect_run pr ctx (m # ms) =
     (case new_sequence_number pr ctx of
        Inl e \<Rightarrow> protect_run pr ctx ms
      | Inr (seq, ctx') \<Rightarrow>
          (case seal pr ctx seq m None of
             Inl e \<Rightarrow> protect_run pr ctx ms
           | Inr (nonce, pm, corr) \<Rightarrow> (seq, nonce, pm) # protect_run pr ctx' ms))"

text \<open>
  Modelled from the spec: the nonce a context encrypts under at a given sequence number,
  as \<open>seal\<close> computes it (empty when the derivation fails and nothing is encrypted).
\<close>

definition nonce_of :: "primitives \<Rightarrow> security_context \<Rightarrow> nat \<Rightarrow> bytes" where
  "nonce_of pr ctx seq =
     (case derive pr (group_parameters_of ctx) (sender_id ctx) group_recipient of
        Inr km \<Rightarrow> message_nonce pr km (sender_id ctx) seq
      | Inl e \<Rightarrow> [])"

text \<open>
  Modelled from the spec: the creation of a SecurityContext (section 3), which stands for
  the constructor of the library class. The context is "created from GroupParameters +
  MemberCredential + peer identifier to credential mapping", its outbound counter "starts
  at 0", the replay window of every peer is "initialized empty at context creation", and
  the echo-recovery token is "regenerated at context creation". The window size and the
  token are inputs.
\<close>

definition new_context :: "nat \<Rightarrow> bytes \<Rightarrow> base_constructor" where
  "new_context n token a =
     Inr \<lparr>alg_aead = alg_aead a, hashfun = hashfun a, alg_signature = alg_signature a,
          alg_group_enc = alg_group_enc a,
          alg_pairwise_key_agreement = alg_pairwise_key_agreement a,
          group_id = group_id a, master_secret = master_secret a, master_salt = master_salt a,
          sender_id = sender_id a, private_key = private_key a,
          sender_auth_cred = sender_auth_cred a, peers = peers a,
          group_manager_cred = group_manager_cred a,
          sender_sequence_number = 0,
          recipient_replay_windows =
            map_of (map (\<lambda>(p, c). (p, initialize_empty
                      \<lparr>window_size = n, anchored = False, highest = 0, accepted = []\<rparr>))
                    (peers a)),
          echo_recovery = Some token\<rparr>"

text \<open>
  Modelled from the spec: the method \<^verbatim>\<open>pairwise_for\<close> of the library class, which
  \<^verbatim>\<open>FixedGroupContext\<close> and \<^verbatim>\<open>BenchmarkGroupContext\<close> override and which is not part of
  the sources. By the docstring of the override it creates a \<^verbatim>\<open>_PairwiseContextAspect\<close>
  for the recipient.
\<close>

definition library_pairwise_for :: "security_context \<Rightarrow> bytes \<Rightarrow> oscore_context" where
  "library_pairwise_for self recipient_id = Pairwise_aspect self recipient_id"

text \<open>
  Modelled from the spec: the two modes of section 9. A group context protects in group
  mode, which is \<^verbatim>\<open>protect\<close> with its countersignature. A pairwise aspect protects with the
  key material of the pair of sender and recipient; the specification does not detail that
  path, which is a parameter here.
\<close>

type_synonym pairwise_protector =
  "security_context \<Rightarrow> bytes \<Rightarrow> message \<Rightarrow> correlation option
     \<Rightarrow> failure + (protected_message \<times> correlation) \<times> security_context"

definition protect_with ::
  "primitives \<Rightarrow> pairwise_protector \<Rightarrow> oscore_context \<Rightarrow> message \<Rightarrow> correlation option
     \<Rightarrow> failure + (protected_message \<times> correlation) \<times> security_context" where
  "protect_with pr pw octx m corr =
     (case octx of
        Group_context c \<Rightarrow> protect pr c m corr
      | Pairwise_aspect c recipient_id \<Rightarrow> pw c recipient_id m corr)"

text \<open>
  Modelled from the spec: the protection of a response, which happens in the library's
  site wrapper and is not part of the sources. The response to a request of the member
  \<open>recipient_id\<close> is protected with the context that the \<^verbatim>\<open>pairwise_for\<close> method of the
  context's class returns for that member (section 9: the override customizes the
  "response-side key lookup"; the override's docstring: the group context is returned
  "para responses"). The method is an argument, as the call is dispatched on the class.
\<close>

definition protect_response ::
  "primitives \<Rightarrow> pairwise_protector \<Rightarrow> (security_context \<Rightarrow> bytes \<Rightarrow> oscore_context)
     \<Rightarrow> security_context \<Rightarrow> bytes \<Rightarrow> message \<Rightarrow> correlation
     \<Rightarrow> failure + (protected_message \<times> correlation) \<times> security_context" where
  "protect_response pr pw pairwise_for_method self recipient_id m corr =
     protect_with pr pw (pairwise_for_method self recipient_id) m (Some corr)"

section \<open>Concrete inputs\<close>

definition example_keys :: fresh_keys where
  "example_keys =
     \<lparr>gm_keys = ([0x01], [0x02]), client_keys = ([0x03], [0x04]), server_keys = ([0x05], [0x06])\<rparr>"

definition other_keys :: fresh_keys where
  "other_keys =
     \<lparr>gm_keys = ([0x11], [0x12]), client_keys = ([0x13], [0x14]), server_keys = ([0x15], [0x16])\<rparr>"

definition corrupt_disk :: filesystem where
  "corrupt_disk = \<lparr>credentials_file = Some Not_json, readable = True, writable = True\<rparr>"

definition stored_disk :: filesystem where
  "stored_disk =
     \<lparr>credentials_file = Some (Json_text (credentials_dict example_keys)),
      readable = True, writable = True\<rparr>"

text \<open>A window left in some earlier state: it has already seen the number 7.\<close>

definition stale_window :: replay_window where
  "stale_window = \<lparr>window_size = 32, anchored = True, highest = 7, accepted = [7]\<rparr>"

text \<open>
  Two base constructors to run the classes on: one that builds a context holding a stale
  window for every peer, and one that raises.
\<close>

definition example_base :: base_constructor where
  "example_base a =
     Inr \<lparr>alg_aead = alg_aead a, hashfun = hashfun a, alg_signature = alg_signature a,
          alg_group_enc = alg_group_enc a,
          alg_pairwise_key_agreement = alg_pairwise_key_agreement a,
          group_id = group_id a, master_secret = master_secret a, master_salt = master_salt a,
          sender_id = sender_id a, private_key = private_key a,
          sender_auth_cred = sender_auth_cred a, peers = peers a,
          group_manager_cred = group_manager_cred a,
          sender_sequence_number = 0,
          recipient_replay_windows = map_of (map (\<lambda>(p, c). (p, stale_window)) (peers a)),
          echo_recovery = None\<rparr>"

definition failing_base :: base_constructor where
  "failing_base a = Inl ValueError"

definition example_token :: bytes where
  "example_token = [1, 2, 3, 4, 5, 6, 7, 8]"

definition example_args :: "bool \<Rightarrow> group_args" where
  "example_args is_client =
     \<lparr>alg_aead = A128GCM, hashfun = Sha256, alg_signature = Ed25519,
      alg_group_enc = A128GCM, alg_pairwise_key_agreement = None,
      group_id = config_group_id, master_secret = config_master_secret,
      master_salt = config_master_salt,
      sender_id = (if is_client then config_client_id else config_server_id),
      private_key = fst ((if is_client then client_keys else server_keys) example_keys),
      sender_auth_cred = snd ((if is_client then client_keys else server_keys) example_keys),
      peers = [(if is_client then config_server_id else config_client_id,
                snd ((if is_client then server_keys else client_keys) example_keys))],
      group_manager_cred = snd (gm_keys example_keys)\<rparr>"

text \<open>
  A toy suite to run the model on. It protects nothing: the "ciphertext" is the code and
  the payload in clear, a "signature" is the first byte of the private key, and a
  credential verifies the signatures of the private key one below it. Sequence numbers are
  one byte wide.
\<close>

definition toy :: primitives where
  "toy = \<lparr>kdf = (\<lambda>h secret salt (g, s, r). \<lparr>aead_key = secret @ s, common_iv = salt\<rparr>),
          aead_implemented = (\<lambda>a. a = A128GCM),
          hash_implemented = (\<lambda>h. h = Sha256),
          build_nonce = (\<lambda>iv sender seq. iv @ sender @ [of_nat seq]),
          aead_encrypt = (\<lambda>alg key nonce aad m. of_nat (msg_code m) # msg_payload m),
          aead_decrypt = (\<lambda>alg key nonce aad ct.
             case ct of [] \<Rightarrow> None
             | c # p \<Rightarrow> Some \<lparr>msg_code = unat c, msg_options = [], msg_payload = p\<rparr>),
          sig_sign = (\<lambda>alg priv (aad, ct). take 1 priv),
          sig_verify = (\<lambda>alg cred (aad, ct) sg. map (\<lambda>b. b + 1) sg = take 1 cred),
          signature_length = (\<lambda>alg. 1),
          low_order_bytes = (\<lambda>seq. [of_nat seq]),
          reconstruct_seq = (\<lambda>w p. case p of [] \<Rightarrow> 0 | b # bs \<Rightarrow> unat b),
          counter_bits = 8\<rparr>"

definition example_config :: shared_config where
  "example_config =
     create_shared_group_config config_master_secret config_master_salt example_keys"

definition example_client :: security_context where
  "example_client = projr (new_context 32 example_token (client_context_args example_config))"

definition example_server :: security_context where
  "example_server = projr (new_context 32 example_token (server_context_args example_config))"

text \<open>A GET request and a 2.05 Content response.\<close>

definition example_request :: message where
  "example_request = \<lparr>msg_code = 1, msg_options = [], msg_payload = [0x68, 0x69]\<rparr>"

definition example_response :: message where
  "example_response = \<lparr>msg_code = 69, msg_options = [], msg_payload = [0x6f, 0x6b]\<rparr>"

text \<open>What the toy suite makes of the request and of the response, and the server's state
  once it has accepted the request.\<close>

definition example_protected_request :: protected_message where
  "example_protected_request =
     \<lparr>kid = [0x43, 0x31], partial_seq = [0], body = [1, 0x68, 0x69, 3]\<rparr>"

definition example_correlation :: correlation where
  "example_correlation = \<lparr>request_kid = [0x43, 0x31], request_partial_seq = [0]\<rparr>"

definition example_protected_response :: protected_message where
  "example_protected_response =
     \<lparr>kid = [0x53, 0x31], partial_seq = [0], body = [69, 0x6f, 0x6b, 5]\<rparr>"

definition example_server_after :: security_context where
  "example_server_after =
     example_server\<lparr>recipient_replay_windows :=
       (recipient_replay_windows example_server)([0x43, 0x31] \<mapsto>
          \<lparr>window_size = 32, anchored = True, highest = 0, accepted = [0]\<rparr>)\<rparr>"



text \<open>
  A pairwise path that fails, as the scripts configure no pairwise key agreement
  (\<^verbatim>\<open>alg_pairwise_key_agreement = None\<close>).
\<close>

definition failing_pairwise :: pairwise_protector where
  "failing_pairwise c recipient_id m corr = Inl UnsupportedAlgorithm"

section \<open>Hexadecimal encoding\<close>

lemmas hex_simps = hex_def hex_byte_def hexdigit_def
lemmas credentials_simps = credentials_dict_def credential_entry_def

lemma digit_value_hexdigit: "n < 16 \<Longrightarrow> digit_value (hexdigit n) = Some n"
proof -
  assume "n < 16"
  then have "n \<in> set [0..<16]" by simp
  then show ?thesis unfolding digit_value_def hexdigit_def
    by (simp add: upt_rec) (elim disjE; simp)
qed

lemma hexdigit_not_space: "n < 16 \<Longrightarrow> \<not> isspace (hexdigit n)"
proof -
  assume "n < 16"
  then have "n \<in> set [0..<16]" by simp
  then show ?thesis unfolding isspace_def hexdigit_def
    by (simp add: upt_rec) (elim disjE; simp)
qed

lemma fromhex_hex_byte: "fromhex (hex_byte b @ s) = map_option ((#) b) (fromhex s)"
proof -
  have h: "unat b div 16 < 16"
    using unsigned_less [of b, where 'a = nat] by (simp add: less_mult_imp_div_less)
  have l: "unat b mod 16 < 16" by simp
  have "of_nat (16 * (unat b div 16) + unat b mod 16) = b" by simp
  then show ?thesis
    using digit_value_hexdigit [OF h] digit_value_hexdigit [OF l] hexdigit_not_space [OF h]
    by (simp add: hex_byte_def)
qed

text \<open>Decoding the hex text of a byte string gives the byte string back.\<close>

lemma fromhex_hex: "fromhex (hex bs) = Some bs"
proof (induction bs)
  case Nil
  show ?case by (simp add: hex_def)
next
  case (Cons b bs)
  have "hex (b # bs) = hex_byte b @ hex bs" by (simp add: hex_def)
  then show ?case using Cons.IH by (simp only: fromhex_hex_byte) simp
qed

lemma config_master_secret_hex: "fromhex ''425a524d5a32f7d0d386603359fa3832'' = Some config_master_secret"
  by (simp add: config_master_secret_def digit_value_def isspace_def upt_rec)

lemma config_master_salt_hex: "fromhex ''1b0b57f74ef4099c'' = Some config_master_salt"
  by (simp add: config_master_salt_def digit_value_def isspace_def upt_rec)

section \<open>Properties of the credential store\<close>

lemma hex_field_credentials:
  "hex_field (credentials_dict ks) ''group_manager'' ''private_key'' = Inr (fst (gm_keys ks))"
  "hex_field (credentials_dict ks) ''group_manager'' ''credential'' = Inr (snd (gm_keys ks))"
  "hex_field (credentials_dict ks) ''client'' ''private_key'' = Inr (fst (client_keys ks))"
  "hex_field (credentials_dict ks) ''client'' ''credential'' = Inr (snd (client_keys ks))"
  "hex_field (credentials_dict ks) ''server'' ''private_key'' = Inr (fst (server_keys ks))"
  "hex_field (credentials_dict ks) ''server'' ''credential'' = Inr (snd (server_keys ks))"
  by (simp_all add: hex_field_def credentials_simps bind_exn_def fromhex_hex)

lemma load_or_create_credentials_eq: "load_or_create_credentials ks fs = load_credentials ks fs"
  by (simp add: load_or_create_credentials_def load_credentials_def
      generate_and_save_credentials_def split: option.splits file_text.splits)

lemma load_corrupt_disk:
  "load_credentials example_keys corrupt_disk =
     (Inr (credentials_dict example_keys),
      corrupt_disk\<lparr>credentials_file := Some (Json_text (credentials_dict example_keys))\<rparr>)"
  by (simp add: load_credentials_def corrupt_disk_def generate_and_save_credentials_def
      save_steps_def)

text \<open>
  C9, as the code has it: the file written by \<^verbatim>\<open>generate_and_save_credentials\<close> (and by
  \<^verbatim>\<open>load_or_create_credentials\<close> when there is no file) is a JSON object of exactly three
  entries, under the fixed keys \<^verbatim>\<open>group_manager\<close>, \<^verbatim>\<open>client\<close> and \<^verbatim>\<open>server\<close>, in
  that order. Each entry holds the hex text of the private key and of the credential, and
  decoding the hex text gives the raw bytes back.
\<close>

theorem persisted_file_has_three_role_entries:
  assumes "writable fs"
  shows "\<exists>entries.
           credentials_file (snd (generate_and_save_credentials ks fs)) =
             Some (Json_text (JObject entries))
         \<and> credentials_file (snd (load_or_create_credentials ks (fs\<lparr>credentials_file := None\<rparr>))) =
             Some (Json_text (JObject entries))
         \<and> map fst entries = [''group_manager'', ''client'', ''server'']
         \<and> map snd entries = map credential_entry [gm_keys ks, client_keys ks, server_keys ks]
         \<and> map (hex_field (JObject entries) ''group_manager'') [''private_key'', ''credential''] =
             [Inr (fst (gm_keys ks)), Inr (snd (gm_keys ks))]
         \<and> map (hex_field (JObject entries) ''client'') [''private_key'', ''credential''] =
             [Inr (fst (client_keys ks)), Inr (snd (client_keys ks))]
         \<and> map (hex_field (JObject entries) ''server'') [''private_key'', ''credential''] =
             [Inr (fst (server_keys ks)), Inr (snd (server_keys ks))]"
  using assms hex_field_credentials [of ks]
  by (simp add: generate_and_save_credentials_def load_or_create_credentials_def save_steps_def
      credentials_dict_def)

theorem persisted_file_has_three_role_entries_witness:
  "\<exists>entries.
     credentials_file (snd (generate_and_save_credentials example_keys corrupt_disk)) =
       Some (Json_text (JObject entries))
   \<and> credentials_file
       (snd (load_or_create_credentials example_keys (corrupt_disk\<lparr>credentials_file := None\<rparr>))) =
       Some (Json_text (JObject entries))
   \<and> map fst entries = [''group_manager'', ''client'', ''server'']
   \<and> map snd entries =
       map credential_entry
         [gm_keys example_keys, client_keys example_keys, server_keys example_keys]
   \<and> map (hex_field (JObject entries) ''group_manager'') [''private_key'', ''credential''] =
       [Inr (fst (gm_keys example_keys)), Inr (snd (gm_keys example_keys))]
   \<and> map (hex_field (JObject entries) ''client'') [''private_key'', ''credential''] =
       [Inr (fst (client_keys example_keys)), Inr (snd (client_keys example_keys))]
   \<and> map (hex_field (JObject entries) ''server'') [''private_key'', ''credential''] =
       [Inr (fst (server_keys example_keys)), Inr (snd (server_keys example_keys))]"
  using persisted_file_has_three_role_entries [of corrupt_disk example_keys]
  by (simp add: corrupt_disk_def)

text \<open>
  The claim C9 as stated (each entry keyed by the member identifier) is false: the member
  identifiers of \<^verbatim>\<open>GROUP_CONFIG\<close> are \<^verbatim>\<open>b"C1"\<close> and \<^verbatim>\<open>b"S1"\<close>, and the persisted
  file has no entry under \<^verbatim>\<open>C1\<close>, nor under its hex text \<^verbatim>\<open>4331\<close>; the client's entry
  is under \<^verbatim>\<open>client\<close>.
\<close>

theorem persisted_file_not_keyed_by_member_id:
  "credentials_file (snd (generate_and_save_credentials example_keys corrupt_disk)) =
     Some (Json_text (credentials_dict example_keys))
   \<and> hex config_client_id = ''4331''
   \<and> getitem (credentials_dict example_keys) ''C1'' = Inl (KeyError ''C1'')
   \<and> getitem (credentials_dict example_keys) (hex config_client_id) = Inl (KeyError ''4331'')
   \<and> getitem (credentials_dict example_keys) ''client'' =
       Inr (credential_entry (client_keys example_keys))"
  by (simp add: generate_and_save_credentials_def save_steps_def corrupt_disk_def
      credentials_dict_def config_client_id_def hex_simps)

text \<open>
  C6, as the code has it: when the credential file exists but cannot be opened for reading,
  or its text is not JSON, loading does not fail on that account. Both
  \<^verbatim>\<open>load_credentials\<close> and \<^verbatim>\<open>load_or_create_credentials\<close> generate fresh credentials,
  overwrite the file with them and return them; they raise only when the file cannot be
  written either.
\<close>

theorem load_regenerates_unreadable_file:
  assumes "credentials_file fs = Some t" and "\<not> readable fs \<or> t = Not_json"
  shows "load_credentials ks fs =
           (if writable fs
            then (Inr (credentials_dict ks),
                  fs\<lparr>credentials_file := Some (Json_text (credentials_dict ks))\<rparr>)
            else (Inl OSError, fs))
       \<and> load_or_create_credentials ks fs = load_credentials ks fs"
  using assms
  by (auto simp: load_credentials_def load_or_create_credentials_def
      generate_and_save_credentials_def save_steps_def)

theorem load_regenerates_unreadable_file_witness:
  "load_credentials example_keys corrupt_disk =
     (Inr (credentials_dict example_keys),
      corrupt_disk\<lparr>credentials_file := Some (Json_text (credentials_dict example_keys))\<rparr>)
   \<and> load_or_create_credentials example_keys corrupt_disk =
       load_credentials example_keys corrupt_disk"
  using load_regenerates_unreadable_file [of corrupt_disk Not_json example_keys]
  by (simp add: corrupt_disk_def)

text \<open>
  The claim C6 as stated (a corrupt file makes loading fail, with no regeneration) is false
  on a file whose text is not JSON: loading returns freshly generated credentials and the
  file now holds them.
\<close>

theorem corrupt_file_is_regenerated:
  "fst (load_credentials example_keys corrupt_disk) = Inr (credentials_dict example_keys)
   \<and> credentials_file (snd (load_credentials example_keys corrupt_disk)) =
       Some (Json_text (credentials_dict example_keys))"
  by (simp add: load_credentials_def corrupt_disk_def generate_and_save_credentials_def
      save_steps_def)

text \<open>
  C7, as the code has it: the credential file is written in place. The write passes through
  exactly two states of the file: first the file exists and holds no JSON (it was created
  or truncated by \<^verbatim>\<open>open\<close>), then it holds the complete JSON text, which is the state
  \<^verbatim>\<open>generate_and_save_credentials\<close> ends in. A \<^verbatim>\<open>load_credentials\<close> that runs in the
  first state does not see the credentials being written and generates its own; one that
  runs in the last state returns the written credentials.
\<close>

theorem credentials_written_in_place:
  assumes "readable fs" and "writable fs"
  shows "snd (generate_and_save_credentials ks fs) = last (save_steps (credentials_dict ks) fs)
       \<and> map credentials_file (save_steps (credentials_dict ks) fs) =
           [Some Not_json, Some (Json_text (credentials_dict ks))]
       \<and> fst (load_credentials ks' (hd (save_steps (credentials_dict ks) fs))) =
           Inr (credentials_dict ks')
       \<and> fst (load_credentials ks' (last (save_steps (credentials_dict ks) fs))) =
           Inr (credentials_dict ks)"
  using assms
  by (simp add: save_steps_def generate_and_save_credentials_def load_credentials_def)

theorem credentials_written_in_place_witness:
  "snd (generate_and_save_credentials other_keys stored_disk) =
     last (save_steps (credentials_dict other_keys) stored_disk)
   \<and> map credentials_file (save_steps (credentials_dict other_keys) stored_disk) =
       [Some Not_json, Some (Json_text (credentials_dict other_keys))]
   \<and> fst (load_credentials example_keys (hd (save_steps (credentials_dict other_keys) stored_disk))) =
       Inr (credentials_dict example_keys)
   \<and> fst (load_credentials example_keys (last (save_steps (credentials_dict other_keys) stored_disk))) =
       Inr (credentials_dict other_keys)"
  using credentials_written_in_place [of stored_disk other_keys example_keys]
  by (simp add: stored_disk_def)

text \<open>
  The claim C7 as stated (the write is atomic, no reader can observe a partly written file)
  is false: while new credentials are written over a stored file, there is a state in
  which the file is neither the old nor the new text and cannot be parsed; a concurrent
  \<^verbatim>\<open>load_credentials\<close> in that state returns credentials that differ from the ones being
  written.
\<close>

theorem partial_file_is_observable:
  "credentials_file (hd (save_steps (credentials_dict other_keys) stored_disk)) = Some Not_json
   \<and> credentials_file (hd (save_steps (credentials_dict other_keys) stored_disk)) \<noteq>
       credentials_file stored_disk
   \<and> fst (load_credentials example_keys (hd (save_steps (credentials_dict other_keys) stored_disk))) =
       Inr (credentials_dict example_keys)
   \<and> credentials_dict example_keys \<noteq> credentials_dict other_keys"
  by (simp add: save_steps_def stored_disk_def load_credentials_def
      generate_and_save_credentials_def credentials_simps example_keys_def other_keys_def
      hex_simps)

section \<open>Properties of the context classes\<close>

lemma context_args_example:
  "context_args (credentials_dict example_keys) is_client = Inr (example_args is_client)"
  by (simp add: context_args_def hex_field_credentials bind_exn_def example_args_def)

lemma initialize_empty_idem: "initialize_empty (initialize_empty w) = initialize_empty w"
  by (simp add: initialize_empty_def)

lemma init_windows_lookup:
  "init_windows ps ws p = (if p \<in> set ps then map_option initialize_empty (ws p) else ws p)"
proof (induction ps arbitrary: ws)
  case Nil
  show ?case by simp
next
  case (Cons q ps)
  show ?case
    by (cases "ws q") (auto simp: Cons.IH initialize_empty_idem)
qed

lemma first_number_accepted:
  "check_and_record seq (initialize_empty w) =
     (True, w\<lparr>anchored := True, highest := seq, accepted := [seq]\<rparr>)"
  by (simp add: check_and_record_def initialize_empty_def)

lemma first_number_rejected_again:
  "\<not> fst (check_and_record seq (w\<lparr>anchored := True, highest := seq, accepted := [seq]\<rparr>))"
  by (simp add: check_and_record_def)

text \<open>
  C4: when a \<^verbatim>\<open>FixedGroupContext\<close> or a \<^verbatim>\<open>BenchmarkGroupContext\<close> is created, the replay
  window the context holds for a configured peer has been through
  \<^verbatim>\<open>initialize_empty\<close>, whatever state the base constructor left it in. Hence the first
  sequence number received from that peer, whichever it is, is accepted and becomes
  \<open>highest\<close>, and the same number is rejected when it comes again: the window starts
  neither rejecting everything nor accepting everything.
\<close>

theorem peer_windows_initialized_empty:
  assumes "base a = Inr self"
    and "peer_id \<in> fst ` set (peers self)"
    and "recipient_replay_windows self peer_id = Some w"
  shows "\<exists>c. FixedGroupContext base token a = Inr c
          \<and> BenchmarkGroupContext base token a = Inr c
          \<and> recipient_replay_windows c peer_id = Some (initialize_empty w)
          \<and> fst (check_and_record seq (initialize_empty w))
          \<and> highest (snd (check_and_record seq (initialize_empty w))) = seq
          \<and> \<not> fst (check_and_record seq (snd (check_and_record seq (initialize_empty w))))"
  using assms
  by (simp add: FixedGroupContext_def BenchmarkGroupContext_def init_windows_lookup
      first_number_accepted first_number_rejected_again)

theorem peer_windows_initialized_empty_witness:
  "\<exists>c. FixedGroupContext example_base example_token (example_args True) = Inr c
     \<and> BenchmarkGroupContext example_base example_token (example_args True) = Inr c
     \<and> recipient_replay_windows c config_server_id = Some (initialize_empty stale_window)
     \<and> fst (check_and_record 7 (initialize_empty stale_window))
     \<and> highest (snd (check_and_record 7 (initialize_empty stale_window))) = 7
     \<and> \<not> fst (check_and_record 7 (snd (check_and_record 7 (initialize_empty stale_window))))"
  using peer_windows_initialized_empty
    [of example_base "example_args True" _ config_server_id stale_window example_token 7]
  by (simp add: example_base_def example_args_def)

text \<open>
  C5, as the code has it: when the context constructor raises, \<^verbatim>\<open>create_group_context\<close>
  does not pass the error on: it returns \<^verbatim>\<open>None\<close>, and \<^verbatim>\<open>run_server\<close> returns early on
  it. \<^verbatim>\<open>create_benchmark_context\<close>, which has no \<^verbatim>\<open>try\<close>, raises the same error.
\<close>

theorem constructor_failure_returns_None:
  assumes "load_credentials ks fs = (Inr creds, fs')"
    and "context_args creds is_client = Inr a"
    and "base a = Inl e"
  shows "create_group_context base token ks fs is_client = (Inr None, fs')
       \<and> create_benchmark_context base token ks fs is_client = (Inl e, fs')
       \<and> (if is_client then True
          else run_server_startup base token ks fs = (Inr Returned_early, fs'))"
  using assms
  by (cases is_client)
    (simp_all add: create_group_context_def create_benchmark_context_def run_server_startup_def
      load_or_create_credentials_eq bind_exn_def FixedGroupContext_def BenchmarkGroupContext_def)

theorem constructor_failure_returns_None_witness:
  "create_group_context failing_base example_token example_keys corrupt_disk False =
      (Inr None,
       corrupt_disk\<lparr>credentials_file := Some (Json_text (credentials_dict example_keys))\<rparr>)
   \<and> create_benchmark_context failing_base example_token example_keys corrupt_disk False =
      (Inl ValueError,
       corrupt_disk\<lparr>credentials_file := Some (Json_text (credentials_dict example_keys))\<rparr>)
   \<and> run_server_startup failing_base example_token example_keys corrupt_disk =
      (Inr Returned_early,
       corrupt_disk\<lparr>credentials_file := Some (Json_text (credentials_dict example_keys))\<rparr>)"
  using constructor_failure_returns_None
    [OF load_corrupt_disk context_args_example [of False], of failing_base ValueError example_token]
  by (simp add: failing_base_def)

text \<open>
  The claim C5 as stated (construction returns a valid context or propagates the error) is
  false for a constructor that raises: \<^verbatim>\<open>create_group_context\<close> returns \<^verbatim>\<open>None\<close>.
\<close>

theorem failed_construction_is_not_propagated:
  "fst (create_group_context failing_base example_token example_keys corrupt_disk True) = Inr None"
  by (simp add: create_group_context_def load_corrupt_disk context_args_example bind_exn_def
      FixedGroupContext_def failing_base_def)


text \<open>An error of reading the credentials is raised to the caller.\<close>

lemma create_group_context_raises_credential_errors:
  assumes "load_credentials ks fs = (Inr creds, fs')" and "context_args creds is_client = Inl e"
  shows "create_group_context base token ks fs is_client = (Inl e, fs')"
  using assms by (simp add: create_group_context_def bind_exn_def)

section \<open>Properties of key derivation and message protection\<close>

lemmas example_simps = example_client_def example_server_def example_config_def
  create_shared_group_config_def client_context_args_def server_context_args_def
  new_context_def example_keys_def example_request_def example_response_def
  initialize_empty_def

lemmas model_simps = protect_def unprotect_def seal_def derive_def new_sequence_number_def
  message_aad_def message_nonce_def group_parameters_of_def group_recipient_def
  check_and_record_def too_old_def









subsection \<open>Sequence numbers and nonces\<close>

lemma new_sequence_number_Inr:
  "new_sequence_number pr ctx = Inr (seq, ctx') \<longleftrightarrow>
     (Suc (sender_sequence_number ctx) < 2 ^ counter_bits pr \<and> seq = sender_sequence_number ctx
      \<and> ctx' = ctx\<lparr>sender_sequence_number := Suc (sender_sequence_number ctx)\<rparr>)"
  by (auto simp: new_sequence_number_def)

lemma seal_nonce: "seal pr ctx seq m corr = Inr (nonce, out) \<Longrightarrow> nonce = nonce_of pr ctx seq"
  by (auto simp: seal_def nonce_of_def Let_def split: sum.splits)

lemma seal_counter_irrelevant:
  "seal pr (ctx\<lparr>sender_sequence_number := n\<rparr>) = seal pr ctx"
  by (rule ext)+
    (simp add: seal_def group_parameters_of_def message_aad_def split: sum.splits)

lemma nonce_of_counter_irrelevant:
  "nonce_of pr (ctx\<lparr>sender_sequence_number := n\<rparr>) = nonce_of pr ctx"
  by (rule ext) (simp add: nonce_of_def group_parameters_of_def split: sum.splits)

text \<open>A run is a run of \<^verbatim>\<open>protect\<close> calls, the context of each being the one the call before left.\<close>

lemma protect_run_Cons:
  "protect_run pr ctx (m # ms) =
     (case protect pr ctx m None of
        Inl e \<Rightarrow> protect_run pr ctx ms
      | Inr ((pm, corr), ctx') \<Rightarrow>
          (sender_sequence_number ctx, nonce_of pr ctx (sender_sequence_number ctx), pm)
            # protect_run pr ctx' ms)"
  by (auto simp: protect_def new_sequence_number_def split: sum.splits dest: seal_nonce)

text \<open>
  Every entry of a run was allocated at or after the counter the run started from, below
  the limit, and was encrypted under the nonce of its sequence number.
\<close>

lemma protect_run_entries:
  "(s, n, pm) \<in> set (protect_run pr ctx ms) \<Longrightarrow>
     sender_sequence_number ctx \<le> s \<and> Suc s < 2 ^ counter_bits pr \<and> n = nonce_of pr ctx s"
proof (induction ms arbitrary: ctx)
  case Nil
  then show ?case by simp
next
  case (Cons m ms)
  show ?case
  proof (cases "new_sequence_number pr ctx")
    case (Inl e)
    with Cons show ?thesis by simp
  next
    case (Inr r)
    obtain seq ctx' where r: "r = (seq, ctx')" by (cases r)
    from Inr r have fresh: "Suc (sender_sequence_number ctx) < 2 ^ counter_bits pr"
      "seq = sender_sequence_number ctx"
      "ctx' = ctx\<lparr>sender_sequence_number := Suc (sender_sequence_number ctx)\<rparr>"
      by (simp_all add: new_sequence_number_Inr)
    show ?thesis
    proof (cases "seal pr ctx seq m None")
      case (Inl e)
      with Cons Inr r show ?thesis by simp
    next
      case sealed: (Inr t)
      obtain nonce pm' corr where t: "t = (nonce, pm', corr)" by (cases t)
      from Cons.prems Inr r sealed t
      consider "(s, n, pm) = (seq, nonce, pm')" | "(s, n, pm) \<in> set (protect_run pr ctx' ms)"
        by auto
      then show ?thesis
      proof cases
        case 1
        with fresh seal_nonce [OF sealed [unfolded t]] show ?thesis by simp
      next
        case 2
        from Cons.IH [OF 2] fresh show ?thesis
          by (simp add: nonce_of_counter_irrelevant)
      qed
    qed
  qed
qed

lemma protect_run_sorted: "sorted_wrt (<) (map fst (protect_run pr ctx ms))"
proof (induction ms arbitrary: ctx)
  case Nil
  show ?case by simp
next
  case (Cons m ms)
  show ?case
  proof (cases "new_sequence_number pr ctx")
    case (Inl e)
    with Cons show ?thesis by simp
  next
    case (Inr r)
    obtain seq ctx' where r: "r = (seq, ctx')" by (cases r)
    from Inr r have fresh: "seq = sender_sequence_number ctx"
      "ctx' = ctx\<lparr>sender_sequence_number := Suc (sender_sequence_number ctx)\<rparr>"
      by (simp_all add: new_sequence_number_Inr)
    show ?thesis
    proof (cases "seal pr ctx seq m None")
      case (Inl e)
      with Cons Inr r show ?thesis by simp
    next
      case sealed: (Inr t)
      obtain nonce pm' corr where t: "t = (nonce, pm', corr)" by (cases t)
      have "seq < s" if "s \<in> fst ` set (protect_run pr ctx' ms)" for s
      proof -
        from that obtain n pm where "(s, n, pm) \<in> set (protect_run pr ctx' ms)" by auto
        from protect_run_entries [OF this] fresh show ?thesis by simp
      qed
      with Cons.IH [of ctx'] Inr r sealed t show ?thesis by auto
    qed
  qed
qed

lemma protect_run_nonces:
  "map (fst \<circ> snd) (protect_run pr ctx ms) =
     map (nonce_of pr ctx) (map fst (protect_run pr ctx ms))"
  using protect_run_entries [of _ _ _ pr ctx ms] by (auto simp: map_eq_conv)

text \<open>Below the limit, and with implemented algorithms, every call of a run returns.\<close>

lemma protect_run_total:
  assumes "aead_implemented pr (alg_aead ctx)" and "hash_implemented pr (hashfun ctx)"
    and "sender_sequence_number ctx + length ms < 2 ^ counter_bits pr"
  shows "map fst (protect_run pr ctx ms) =
           [sender_sequence_number ctx ..< sender_sequence_number ctx + length ms]"
  using assms
proof (induction ms arbitrary: ctx)
  case Nil
  show ?case by simp
next
  case (Cons m ms)
  let ?ctx' = "ctx\<lparr>sender_sequence_number := Suc (sender_sequence_number ctx)\<rparr>"
  from Cons.prems have ns: "new_sequence_number pr ctx = Inr (sender_sequence_number ctx, ?ctx')"
    by (simp add: new_sequence_number_def)
  from Cons.prems obtain out where sl: "seal pr ctx (sender_sequence_number ctx) m None = Inr out"
    by (simp add: seal_def derive_def group_parameters_of_def Let_def)
  obtain nonce pm corr where out: "out = (nonce, pm, corr)" by (cases out)
  from Cons.prems have "map fst (protect_run pr ?ctx' ms) =
      [sender_sequence_number ?ctx' ..< sender_sequence_number ?ctx' + length ms]"
    by (intro Cons.IH) simp_all
  then have "map fst (protect_run pr ?ctx' ms) =
      [Suc (sender_sequence_number ctx) ..< sender_sequence_number ctx + length (m # ms)]"
    by simp
  with ns sl out show ?case by (simp del: upt_Suc add: upt_conv_Cons)
qed

lemma toy_nonce_inj: "inj_on (build_nonce toy iv sender) {seq. seq < 2 ^ counter_bits toy}"
proof (rule inj_onI)
  fix x y assume "x \<in> {seq. seq < 2 ^ counter_bits toy}" "y \<in> {seq. seq < 2 ^ counter_bits toy}"
    and eq: "build_nonce toy iv sender x = build_nonce toy iv sender y"
  then have "x < 256" "y < 256" by (simp_all add: toy_def)
  moreover from eq have "(of_nat x :: byte) = of_nat y" by (simp add: toy_def)
  then have "unat (of_nat x :: byte) = unat (of_nat y :: byte)" by simp
  ultimately show "x = y" by (simp add: unat_of_nat)
qed

text \<open>
  C1: in a run of consecutive \<^verbatim>\<open>protect\<close> calls on one context, the sequence numbers of
  the calls are strictly increasing, so none repeats; and, the nonce construction being
  injective in the sequence number (as the specification requires of it), no two calls
  encrypt under the same nonce. As long as the counter is below its limit and the
  algorithms are implemented, every call returns, and \<open>N\<close> calls yield the \<open>N\<close> numbers
  that follow the counter.
\<close>

theorem protect_sequence_numbers_increase:
  assumes "\<And>iv. inj_on (build_nonce pr iv (sender_id ctx)) {seq. seq < 2 ^ counter_bits pr}"
  shows "sorted_wrt (<) (map fst (protect_run pr ctx ms))
       \<and> distinct (map fst (protect_run pr ctx ms))
       \<and> distinct (map (fst \<circ> snd) (protect_run pr ctx ms))
       \<and> (if aead_implemented pr (alg_aead ctx) \<and> hash_implemented pr (hashfun ctx)
             \<and> sender_sequence_number ctx + length ms < 2 ^ counter_bits pr
          then map fst (protect_run pr ctx ms) =
                 [sender_sequence_number ctx ..< sender_sequence_number ctx + length ms]
          else True)"
proof -
  let ?seqs = "map fst (protect_run pr ctx ms)"
  have sorted: "sorted_wrt (<) ?seqs" by (rule protect_run_sorted)
  then have dist: "distinct ?seqs" by (simp add: strict_sorted_iff)
  have range: "set ?seqs \<subseteq> {seq. seq < 2 ^ counter_bits pr}"
  proof
    fix s assume "s \<in> set ?seqs"
    then obtain n pm where "(s, n, pm) \<in> set (protect_run pr ctx ms)" by auto
    from protect_run_entries [OF this] show "s \<in> {seq. seq < 2 ^ counter_bits pr}" by simp
  qed
  have inj: "inj_on (nonce_of pr ctx) (set ?seqs)"
  proof (cases "derive pr (group_parameters_of ctx) (sender_id ctx) group_recipient")
    case (Inl e)
    then have "protect_run pr ctx ms = []"
    proof (induction ms)
      case Nil
      show ?case by simp
    next
      case (Cons m ms)
      then show ?case
        by (simp add: seal_def new_sequence_number_def seal_counter_irrelevant split: sum.splits)
    qed
    then show ?thesis by simp
  next
    case (Inr km)
    then have "nonce_of pr ctx = build_nonce pr (common_iv km) (sender_id ctx)"
      by (simp add: nonce_of_def message_nonce_def fun_eq_iff)
    with assms [of "common_iv km"] range show ?thesis
      by (auto intro: inj_on_subset)
  qed
  have "distinct (map (nonce_of pr ctx) ?seqs)"
    unfolding distinct_map [of "nonce_of pr ctx" ?seqs] using dist inj by blast
  then have nonces: "distinct (map (fst \<circ> snd) (protect_run pr ctx ms))"
    by (simp only: protect_run_nonces)
  from sorted dist nonces protect_run_total [of pr ctx ms] show ?thesis by simp
qed

theorem protect_sequence_numbers_increase_witness:
  "sorted_wrt (<)
     (map fst (protect_run toy example_client [example_request, example_request, example_request]))
   \<and> distinct
       (map fst (protect_run toy example_client [example_request, example_request, example_request]))
   \<and> distinct
       (map (fst \<circ> snd)
          (protect_run toy example_client [example_request, example_request, example_request]))
   \<and> map fst (protect_run toy example_client [example_request, example_request, example_request]) =
       [0, 1, 2]"
  using protect_sequence_numbers_increase
    [of toy example_client "[example_request, example_request, example_request]",
     OF toy_nonce_inj]
  by (simp add: example_simps toy_def upt_rec)

subsection \<open>Replay\<close>

text \<open>A number a window has just accepted is rejected by the window it has become.\<close>

lemma accepted_number_rejected_again:
  assumes "check_and_record seq w = (True, w')"
  shows "\<not> fst (check_and_record seq w')"
proof (cases "anchored w")
  case False
  with assms have "w' = w\<lparr>anchored := True, highest := seq, accepted := [seq]\<rparr>"
    by (simp add: check_and_record_def)
  then show ?thesis by (simp add: check_and_record_def)
next
  case True
  with assms have w': "w' = w\<lparr>highest := max (highest w) seq,
      accepted := filter (\<lambda>s. \<not> too_old w (max (highest w) seq) s) (seq # accepted w)\<rparr>"
    by (simp add: check_and_record_def split: if_splits)
  have "too_old w' = too_old w" by (simp add: too_old_def w' fun_eq_iff)
  with True w' show ?thesis by (simp add: check_and_record_def)
qed

lemma unprotect_example_request:
  "unprotect toy example_server example_protected_request None =
     Inr ((example_request, example_correlation), example_server_after)"
  by (simp add: model_simps example_simps toy_def example_protected_request_def
      example_server_after_def example_correlation_def)

text \<open>
  C3: when \<^verbatim>\<open>unprotect\<close> has accepted a protected message, a second \<^verbatim>\<open>unprotect\<close> of the
  identical message on the resulting context fails with \<open>ReplayDetected\<close>, provided the
  partial sequence number is reconstructed to the same number against the updated window.
\<close>

theorem replayed_message_is_rejected:
  assumes accepted: "unprotect pr ctx pm corr = Inr (res, ctx')"
    and stable: "\<And>w w'. recipient_replay_windows ctx (kid pm) = Some w \<Longrightarrow>
                   recipient_replay_windows ctx' (kid pm) = Some w' \<Longrightarrow>
                   reconstruct_seq pr w' (partial_seq pm) = reconstruct_seq pr w (partial_seq pm)"
  shows "unprotect pr ctx' pm corr = Inl ReplayDetected"
proof -
  from accepted obtain cred w where known: "map_of (peers ctx) (kid pm) = Some cred"
    and window: "recipient_replay_windows ctx (kid pm) = Some w"
    by (auto simp: unprotect_def split: option.splits)
  let ?seq = "reconstruct_seq pr w (partial_seq pm)"
  obtain ok w' where check: "check_and_record ?seq w = (ok, w')"
    by (cases "check_and_record ?seq w")
  from accepted known window check have ok: "ok"
    by (cases ok) (simp_all add: unprotect_def)
  from accepted known window check ok
  have ctx': "ctx' = ctx\<lparr>recipient_replay_windows := (recipient_replay_windows ctx)(kid pm \<mapsto> w')\<rparr>"
    by (auto simp: unprotect_def Let_def split: sum.splits option.splits if_splits)
  then have window': "recipient_replay_windows ctx' (kid pm) = Some w'" by simp
  from stable [OF window window'] have "reconstruct_seq pr w' (partial_seq pm) = ?seq" .
  moreover from check ok have "\<not> fst (check_and_record ?seq w')"
    by (intro accepted_number_rejected_again [of ?seq w w']) simp
  ultimately show ?thesis using known window' ctx'
    by (cases "check_and_record ?seq w'") (simp add: unprotect_def)
qed

theorem replayed_message_is_rejected_witness:
  "unprotect toy example_server example_protected_request None =
     Inr ((example_request, example_correlation), example_server_after)
   \<and> unprotect toy example_server_after example_protected_request None = Inl ReplayDetected"
  using replayed_message_is_rejected [OF unprotect_example_request] unprotect_example_request
  by (simp add: toy_def)

subsection \<open>Round trip\<close>

text \<open>
  C2: let a sender and a receiver hold the same group parameters, let the receiver know the
  sender under a credential that verifies the sender's signatures, and let the sender's
  next sequence number be allocatable, reconstructible by the receiver and acceptable to
  the receiver's window for the sender. With an AEAD that decrypts what it encrypted and
  signatures of the fixed length, \<^verbatim>\<open>protect\<close> returns a protected message and
  \<^verbatim>\<open>unprotect\<close> of it returns the original message, hence the original payload. This
  holds for a request (no correlation identifier on either side) and for a response
  (both sides hold the partial sequence number of the request); the handle the receiver
  gets is the correlation identifier the sender got.
\<close>

theorem unprotect_protect_round_trip:
  assumes params: "group_parameters_of receiver = group_parameters_of sender"
    and known: "map_of (peers receiver) (sender_id sender) = Some cred"
    and window: "recipient_replay_windows receiver (sender_id sender) = Some w"
    and fresh: "Suc (sender_sequence_number sender) < 2 ^ counter_bits pr"
    and impl: "aead_implemented pr (alg_aead sender)" "hash_implemented pr (hashfun sender)"
    and recon: "reconstruct_seq pr w (low_order_bytes pr (sender_sequence_number sender)) =
                  sender_sequence_number sender"
    and accept: "fst (check_and_record (sender_sequence_number sender) w)"
    and aead: "\<And>k n a. aead_decrypt pr (alg_aead sender) k n a
                  (aead_encrypt pr (alg_aead sender) k n a m) = Some m"
    and sig: "\<And>x. sig_verify pr (alg_signature sender) cred x
                  (sig_sign pr (alg_signature sender) (private_key sender) x)"
    and siglen: "\<And>x. length (sig_sign pr (alg_signature sender) (private_key sender) x) =
                  signature_length pr (alg_signature sender)"
    and bound: "map_option request_partial_seq corr_r = map_option request_partial_seq corr_s"
  shows "\<exists>pm c sender' m' receiver'.
           protect pr sender m corr_s = Inr ((pm, c), sender')
         \<and> unprotect pr receiver pm corr_r = Inr ((m', c), receiver')
         \<and> m' = m \<and> msg_payload m' = msg_payload m"
proof -
  let ?seq = "sender_sequence_number sender"
  let ?sender' = "sender\<lparr>sender_sequence_number := Suc ?seq\<rparr>"
  from params have eqs: "group_id receiver = group_id sender"
    "alg_aead receiver = alg_aead sender" "alg_signature receiver = alg_signature sender"
    "hashfun receiver = hashfun sender"
    by (simp_all add: group_parameters_of_def)
  from bound have aad: "message_aad receiver (sender_id sender) corr_r =
      message_aad sender (sender_id sender) corr_s"
    by (cases corr_r; cases corr_s) (simp_all add: message_aad_def eqs)
  let ?km = "kdf pr (hashfun sender) (master_secret sender) (master_salt sender)
               (group_id sender, sender_id sender, group_recipient)"
  from impl
  have dv: "derive pr (group_parameters_of sender) (sender_id sender) group_recipient = Inr ?km"
    by (simp add: derive_def group_parameters_of_def)
  let ?aad = "message_aad sender (sender_id sender) corr_s"
  let ?ct = "aead_encrypt pr (alg_aead sender) (aead_key ?km)
               (message_nonce pr ?km (sender_id sender) ?seq) ?aad m"
  let ?sg = "sig_sign pr (alg_signature sender) (private_key sender) (?aad, ?ct)"
  let ?pm = "\<lparr>kid = sender_id sender, partial_seq = low_order_bytes pr ?seq, body = ?ct @ ?sg\<rparr>"
  let ?c = "\<lparr>request_kid = sender_id sender, request_partial_seq = low_order_bytes pr ?seq\<rparr>"
  from fresh dv have p: "protect pr sender m corr_s = Inr ((?pm, ?c), ?sender')"
    by (simp add: protect_def new_sequence_number_def seal_def Let_def)
  obtain w' where check: "check_and_record ?seq w = (True, w')"
    using accept by (cases "check_and_record ?seq w") simp
  let ?receiver' = "receiver\<lparr>recipient_replay_windows :=
      (recipient_replay_windows receiver)(sender_id sender \<mapsto> w')\<rparr>"
  have u: "unprotect pr receiver ?pm corr_r = Inr ((m, ?c), ?receiver')"
    using known window recon check dv aead sig siglen
    by (simp add: unprotect_def params aad eqs Let_def)
  from p u show ?thesis by simp
qed

theorem unprotect_protect_round_trip_witness:
  "protect toy example_client example_request None =
     Inr ((example_protected_request, example_correlation),
          example_client\<lparr>sender_sequence_number := 1\<rparr>)
   \<and> unprotect toy example_server example_protected_request None =
     Inr ((example_request, example_correlation), example_server_after)
   \<and> protect toy example_server_after example_response (Some example_correlation) =
     Inr ((example_protected_response, \<lparr>request_kid = [0x53, 0x31], request_partial_seq = [0]\<rparr>),
          example_server_after\<lparr>sender_sequence_number := 1\<rparr>)
   \<and> unprotect toy (example_client\<lparr>sender_sequence_number := 1\<rparr>) example_protected_response
       (Some example_correlation) =
     Inr ((example_response, \<lparr>request_kid = [0x53, 0x31], request_partial_seq = [0]\<rparr>),
          example_client\<lparr>sender_sequence_number := 1,
            recipient_replay_windows := (recipient_replay_windows example_client)([0x53, 0x31] \<mapsto>
              \<lparr>window_size = 32, anchored = True, highest = 0, accepted = [0]\<rparr>)\<rparr>)"
  using unprotect_protect_round_trip
          [of example_server example_client "[4]"
              "\<lparr>window_size = 32, anchored = False, highest = 0, accepted = []\<rparr>"
              toy example_request None None]
        unprotect_protect_round_trip
          [of "example_client\<lparr>sender_sequence_number := 1\<rparr>" example_server_after "[6]"
              "\<lparr>window_size = 32, anchored = False, highest = 0, accepted = []\<rparr>"
              toy example_response "Some example_correlation" "Some example_correlation"]
  by (simp add: model_simps example_simps toy_def example_protected_request_def
      example_server_after_def example_correlation_def example_protected_response_def)

subsection \<open>Group mode\<close>

text \<open>With the method of the library, a response would go the pairwise way.\<close>

lemma library_response_is_pairwise:
  "protect_response pr pw library_pairwise_for self recipient_id m corr =
     pw self recipient_id m (Some corr)"
  by (simp add: protect_response_def protect_with_def library_pairwise_for_def)

text \<open>
  C10: for every recipient identifier, \<^verbatim>\<open>pairwise_for\<close> of \<^verbatim>\<open>FixedGroupContext\<close> and of
  \<^verbatim>\<open>BenchmarkGroupContext\<close> returns the group context itself. Hence a response, which is
  protected with the context \<^verbatim>\<open>pairwise_for\<close> returns, is protected in group mode by the
  context itself, whatever the pairwise path would do: when the protection returns, the
  message names the sender, its ciphertext is made under the sender's group key material
  (in which the recipient has no part), and its body ends with the countersignature made
  with the sender's private key; it fails only as group mode fails.
\<close>

theorem responses_protected_in_group_mode:
  "pairwise_for self recipient_id = Group_context self
   \<and> benchmark_pairwise_for self recipient_id = Group_context self
   \<and> protect_response pr pw pairwise_for self recipient_id m corr =
       protect pr self m (Some corr)
   \<and> protect_response pr pw benchmark_pairwise_for self recipient_id m corr =
       protect pr self m (Some corr)
   \<and> (case protect_response pr pw pairwise_for self recipient_id m corr of
        Inl e \<Rightarrow> e = SequenceExhausted \<or> e = UnsupportedAlgorithm
      | Inr ((pm, c), self') \<Rightarrow>
          kid pm = sender_id self
          \<and> (\<exists>km ciphertext.
                derive pr (group_parameters_of self) (sender_id self) group_recipient = Inr km
              \<and> ciphertext = aead_encrypt pr (alg_aead self) (aead_key km)
                               (message_nonce pr km (sender_id self) (sender_sequence_number self))
                               (message_aad self (sender_id self) (Some corr)) m
              \<and> body pm = ciphertext @ sig_sign pr (alg_signature self) (private_key self)
                                         (message_aad self (sender_id self) (Some corr), ciphertext)))"
  by (auto simp: pairwise_for_def benchmark_pairwise_for_def protect_response_def protect_with_def
      protect_def new_sequence_number_def seal_def derive_def Let_def split: sum.splits if_splits)

theorem responses_protected_in_group_mode_witness:
  "protect_response toy failing_pairwise pairwise_for example_server_after config_client_id
       example_response example_correlation =
     Inr ((example_protected_response, \<lparr>request_kid = [0x53, 0x31], request_partial_seq = [0]\<rparr>),
          example_server_after\<lparr>sender_sequence_number := 1\<rparr>)
   \<and> body example_protected_response =
       [69, 0x6f, 0x6b] @ sig_sign toy Ed25519 (private_key example_server_after)
                            (message_aad example_server_after config_server_id
                               (Some example_correlation), [69, 0x6f, 0x6b])
   \<and> protect_response toy failing_pairwise library_pairwise_for example_server_after
       config_client_id example_response example_correlation = Inl UnsupportedAlgorithm"
  using responses_protected_in_group_mode
          [where self = example_server_after and recipient_id = config_client_id
             and pr = toy and pw = failing_pairwise and m = example_response
             and corr = example_correlation]
  by (simp add: model_simps example_simps toy_def example_protected_request_def
      example_server_after_def example_correlation_def example_protected_response_def
      protect_response_def protect_with_def library_pairwise_for_def failing_pairwise_def
      pairwise_for_def)

end
